theory Spec2Isabelle
  imports Main "HOL-Library.Sublist"
begin

section \<open>Strings\<close>

text \<open>
  Go strings are byte sequences; they are modelled as \<open>string\<close> (a list of 8-bit
  characters). The functions of package \<open>strings\<close> and \<open>path\<close> that the code calls are
  written out here as the Go standard library defines them, for ASCII text: letters
  outside \<open>A\<close>..\<open>Z\<close> are left as they are by \<open>ToLower\<close>, and \<open>TrimSpace\<close> removes the
  six ASCII white-space characters.
\<close>

definition toLowerChar :: "char \<Rightarrow> char" where
  "toLowerChar c =
     (case map_of (zip ''ABCDEFGHIJKLMNOPQRSTUVWXYZ'' ''abcdefghijklmnopqrstuvwxyz'') c of
        Some l \<Rightarrow> l
      | None \<Rightarrow> c)"

definition ToLower :: "string \<Rightarrow> string" where
  "ToLower s = map toLowerChar s"

definition isSpace :: "char \<Rightarrow> bool" where
  "isSpace c = (c \<in> set [CHR '' '', CHR 0x09, CHR 0x0A, CHR 0x0B, CHR 0x0C, CHR 0x0D])"

definition TrimSpace :: "string \<Rightarrow> string" where
  "TrimSpace s = rev (dropWhile isSpace (rev (dropWhile isSpace s)))"

text \<open>\<open>strings.HasPrefix(s, p)\<close> is \<open>len(s) >= len(p) && s[0:len(p)] == p\<close>.\<close>

definition HasPrefix :: "string \<Rightarrow> string \<Rightarrow> bool" where
  "HasPrefix s p = (length p \<le> length s \<and> take (length p) s = p)"

text \<open>\<open>strings.HasSuffix(s, x)\<close> is \<open>len(s) >= len(x) && s[len(s)-len(x):] == x\<close>.\<close>

definition HasSuffix :: "string \<Rightarrow> string \<Rightarrow> bool" where
  "HasSuffix s x = (length x \<le> length s \<and> drop (length s - length x) s = x)"

text \<open>
  \<open>strings.Split(s, sep)\<close> for a separator of one byte: the fields between the
  occurrences of the separator, one more than there are occurrences (so the empty
  string gives one empty field).
\<close>

fun Split :: "string \<Rightarrow> char \<Rightarrow> string list" where
  "Split [] sep = [[]]"
| "Split (c # cs) sep =
     (if c = sep then [] # Split cs sep
      else (case Split cs sep of
              [] \<Rightarrow> [[c]]
            | f # fs \<Rightarrow> (c # f) # fs))"

text \<open>
  The slice expression \<open>s[lo:hi]\<close>: Go panics unless \<open>lo \<le> hi \<le> len(s)\<close>; the panic
  is the value \<open>None\<close>.
\<close>

definition slice :: "string \<Rightarrow> nat \<Rightarrow> int \<Rightarrow> string option" where
  "slice s lo hi =
     (if int lo \<le> hi \<and> hi \<le> int (length s) then Some (take (nat hi - lo) (drop lo s))
      else None)"

text \<open>
  \<open>path.Base\<close>: the last element of a path. Trailing slashes are removed first; the
  empty path gives \<open>.\<close>, a path of slashes only gives \<open>/\<close>.
\<close>

definition stripSlashes :: "string \<Rightarrow> string" where
  "stripSlashes p = rev (dropWhile (\<lambda>c. c = CHR ''/'') (rev p))"

definition lastElem :: "string \<Rightarrow> string" where
  "lastElem p = rev (takeWhile (\<lambda>c. c \<noteq> CHR ''/'') (rev p))"

definition Base :: "string \<Rightarrow> string" where
  "Base p =
     (if p = [] then ''.''
      else let q = lastElem (stripSlashes p) in if q = [] then ''/'' else q)"

section \<open>Errors\<close>

text \<open>
  Every error of the program is a message: \<open>fmt.Errorf\<close> with \<open>%v\<close> formats the inner
  error into the text of a new one. \<open>Msg\<close> is the method \<open>Error()\<close>.
\<close>

datatype error = Error string

fun Msg :: "error \<Rightarrow> string" where
  "Msg (Error m) = m"

section \<open>The world outside the program\<close>

text \<open>
  The program talks to SQL servers through connections (identified by their data
  source name), to the diagnostic HTTP endpoint, and to the file system. Every call to
  a server is recorded in a trace; what a server answers is given by an oracle that
  sees the request and the trace so far, so that the theorems hold whatever the
  servers do.
\<close>

datatype event =
    SqlOpen string
  | Ping string
  | Exec string string
  | Query string string
  | HttpGet string

text \<open>The rows of a query: each row is its list of columns; \<open>closeErr\<close> is what
  \<open>rows.Close()\<close> returns.\<close>

record rows =
  rowData :: "string list list"
  closeErr :: "error option"

record response =
  statusCode :: nat
  body :: string

datatype fsop = OpMkdirAll | OpOpen | OpWrite | OpCopy | OpFlush | OpClose | OpRead

record env =
  sqlOpenErr :: "string \<Rightarrow> event list \<Rightarrow> error option"
  pingErr :: "string \<Rightarrow> event list \<Rightarrow> error option"
  execErr :: "string \<Rightarrow> string \<Rightarrow> event list \<Rightarrow> error option"
  queryRes :: "string \<Rightarrow> string \<Rightarrow> event list \<Rightarrow> error + rows"
  httpRes :: "string \<Rightarrow> event list \<Rightarrow> error + response"
  fsErr :: "fsop \<Rightarrow> string \<Rightarrow> event list \<Rightarrow> error option"
  partialLen :: "string \<Rightarrow> event list \<Rightarrow> nat"
  marshalIndent :: "(string \<times> string) list \<Rightarrow> error + string"
  unmarshal :: "string \<Rightarrow> error + (string \<times> string) list"
  globRes :: "string \<Rightarrow> (string \<rightharpoonup> string) \<Rightarrow> error + string list"
  joinPath :: "string \<Rightarrow> string \<Rightarrow> string"
  tmpPathDir :: string

text \<open>
  The state the program changes: the trace of server calls, the files (path to
  content), the files registered with the SQL driver as readable by the server, and the
  text printed on standard output.
\<close>

record world =
  trace :: "event list"
  files :: "string \<rightharpoonup> string"
  localFiles :: "string list"
  out :: "string list"

definition Printf :: "string \<Rightarrow> world \<Rightarrow> world" where
  "Printf s w = w\<lparr>out := out w @ [s]\<rparr>"

definition nl :: string where
  "nl = [CHR 0x0A]"

record tidbAccessOptions =
  addr :: string
  statusPort :: string
  port :: string
  user :: string
  password :: string
  version :: string

text \<open>The handler: the options and the connection (\<open>*sql.DB\<close>), named by its data
  source name.\<close>

record tidbHandler =
  opt :: tidbAccessOptions
  db :: string

definition dbExec :: "env \<Rightarrow> tidbHandler \<Rightarrow> string \<Rightarrow> world \<Rightarrow> error option \<times> world" where
  "dbExec e h q w = (execErr e (db h) q (trace w), w\<lparr>trace := trace w @ [Exec (db h) q]\<rparr>)"

definition dbQuery :: "env \<Rightarrow> tidbHandler \<Rightarrow> string \<Rightarrow> world \<Rightarrow> (error + rows) \<times> world" where
  "dbQuery e h q w = (queryRes e (db h) q (trace w), w\<lparr>trace := trace w @ [Query (db h) q]\<rparr>)"

definition httpGet :: "env \<Rightarrow> string \<Rightarrow> world \<Rightarrow> (error + response) \<times> world" where
  "httpGet e url w = (httpRes e url (trace w), w\<lparr>trace := trace w @ [HttpGet url]\<rparr>)"

text \<open>
  \<open>rows.Scan\<close> into \<open>n\<close> string destinations: it fails when no row is current
  (\<open>Next\<close> found none) and when the row does not have \<open>n\<close> columns.
\<close>

definition errNoRow :: error where
  "errNoRow = Error ''sql: Rows are closed''"

definition errScanArgs :: error where
  "errScanArgs = Error ''sql: wrong number of destination arguments in Scan''"

definition Scan1 :: "string list \<Rightarrow> error + string" where
  "Scan1 r = (case r of [c] \<Rightarrow> Inr c | _ \<Rightarrow> Inl errScanArgs)"

definition Scan2 :: "string list \<Rightarrow> error + string \<times> string" where
  "Scan2 r = (case r of [c1, c2] \<Rightarrow> Inr (c1, c2) | _ \<Rightarrow> Inl errScanArgs)"

section \<open>Enumerating databases and tables\<close>

definition sysDBs :: "string list" where
  "sysDBs = [''INFORMATION_SCHEMA'', ''METRICS_SCHEMA'', ''PERFORMANCE_SCHEMA'', ''mysql'']"

text \<open>The loop of \<open>isSysDB\<close> over a list of names, returning at the first match.\<close>

fun isSysDBIn :: "string list \<Rightarrow> string \<Rightarrow> bool" where
  "isSysDBIn [] d = False"
| "isSysDBIn (sysDB # rest) d =
     (if ToLower d = ToLower sysDB then True else isSysDBIn rest d)"

definition isSysDB :: "string \<Rightarrow> bool" where
  "isSysDB d = isSysDBIn sysDBs d"

text \<open>The loop \<open>for rows.Next()\<close> of \<open>getDBs\<close>: scan the row's one column, keep the
  name unless it is a system database.\<close>

fun scanDBs :: "string list list \<Rightarrow> string list \<Rightarrow> error + string list" where
  "scanDBs [] dbs = Inr dbs"
| "scanDBs (r # rs) dbs =
     (case Scan1 r of
        Inl err \<Rightarrow> Inl (Error (''scan rows err: '' @ Msg err))
      | Inr dbName \<Rightarrow>
          if \<not> isSysDB dbName then scanDBs rs (dbs @ [dbName]) else scanDBs rs dbs)"

definition getDBs :: "env \<Rightarrow> tidbHandler \<Rightarrow> world \<Rightarrow> (error + string list) \<times> world" where
  "getDBs e h w =
     (case dbQuery e h ''show databases'' w of
        (Inl err, w1) \<Rightarrow> (Inl (Error (''execute show databases error: '' @ Msg err)), w1)
      | (Inr rs, w1) \<Rightarrow> (scanDBs (rowData rs) [], w1))"

text \<open>The loop \<open>for rows.Next()\<close> of \<open>getTables\<close>.\<close>

fun scanTables :: "string list list \<Rightarrow> string list \<Rightarrow> error + string list" where
  "scanTables [] tables = Inr tables"
| "scanTables (r # rs) tables =
     (case Scan1 r of
        Inl err \<Rightarrow> Inl (Error (''scan rows error: '' @ Msg err))
      | Inr table \<Rightarrow> scanTables rs (tables @ [table]))"

definition getTables :: "env \<Rightarrow> tidbHandler \<Rightarrow> string \<Rightarrow> world \<Rightarrow> (error + string list) \<times> world" where
  "getTables e h dbn w =
     (case dbExec e h (''use '' @ dbn) w of
        (Some err, w1) \<Rightarrow> (Inl (Error (''switch to DB: '' @ dbn @ '' error: '' @ Msg err)), w1)
      | (None, w1) \<Rightarrow>
          (case dbQuery e h ''show tables'' w1 of
             (Inl err, w2) \<Rightarrow> (Inl (Error (''execute show tables error: '' @ Msg err)), w2)
           | (Inr rs, w2) \<Rightarrow> (scanTables (rowData rs) [], w2)))"

section \<open>The file system\<close>

text \<open>
  \<open>os.OpenFile\<close> with \<open>O_CREATE|O_WRONLY|O_TRUNC\<close> creates the file or empties it.
  A write that fails leaves the first \<open>partialLen\<close> bytes of the data in the file.
  \<open>ioutil.ReadFile\<close> fails on a path that is not a file.
\<close>

definition openFile :: "env \<Rightarrow> string \<Rightarrow> world \<Rightarrow> error option \<times> world" where
  "openFile e path w =
     (case fsErr e OpOpen path (trace w) of
        Some err \<Rightarrow> (Some err, w)
      | None \<Rightarrow> (None, w\<lparr>files := (files w)(path \<mapsto> [])\<rparr>))"

definition writeFile :: "env \<Rightarrow> fsop \<Rightarrow> string \<Rightarrow> string \<Rightarrow> world \<Rightarrow> error option \<times> world" where
  "writeFile e oper path content w =
     (case fsErr e oper path (trace w) of
        Some err \<Rightarrow>
          (Some err, w\<lparr>files := (files w)(path \<mapsto> take (partialLen e path (trace w)) content)\<rparr>)
      | None \<Rightarrow> (None, w\<lparr>files := (files w)(path \<mapsto> content)\<rparr>))"

definition readFile :: "env \<Rightarrow> string \<Rightarrow> world \<Rightarrow> error + string" where
  "readFile e path w =
     (case fsErr e OpRead path (trace w) of
        Some err \<Rightarrow> Inl err
      | None \<Rightarrow>
          (case files w path of
             None \<Rightarrow> Inl (Error (''open '' @ path @ '': no such file or directory''))
           | Some content \<Rightarrow> Inr content))"

section \<open>Schema export\<close>

text \<open>
  The sets \<open>tablesMap\<close> and \<open>ignoreTables\<close> are Go maps from \<open>string\<close> to the empty
  struct: sets of keys. \<open>tableSchemas\<close> is a Go map from table name to statement, kept
  as an association list with one pair for each key.
\<close>

definition mapPut :: "(string \<times> string) list \<Rightarrow> string \<Rightarrow> string \<Rightarrow> (string \<times> string) list" where
  "mapPut m k v = (if k \<in> fst ` set m then map (\<lambda>(k', v'). if k' = k then (k', v) else (k', v')) m
                  else m @ [(k, v)])"

definition showCreateSQL :: "string \<Rightarrow> string \<Rightarrow> string" where
  "showCreateSQL dbn t = ''show create table `'' @ dbn @ ''`.`'' @ t @ ''`''"

text \<open>The loop over the tables in \<open>exportDBSchemas\<close>. \<open>rows.Next()\<close> makes the first
  row current, if there is one.\<close>

fun exportDBTables ::
  "env \<Rightarrow> tidbHandler \<Rightarrow> string \<Rightarrow> string set \<Rightarrow> string set \<Rightarrow> string list \<Rightarrow>
   (string \<times> string) list \<Rightarrow> world \<Rightarrow> (error + (string \<times> string) list) \<times> world" where
  "exportDBTables e h dbn tablesMap ignoreTables [] tableSchemas w = (Inr tableSchemas, w)"
| "exportDBTables e h dbn tablesMap ignoreTables (t # ts) tableSchemas w =
     (if ToLower t \<in> ignoreTables then
        exportDBTables e h dbn tablesMap ignoreTables ts tableSchemas
          (Printf (''ignore table: '' @ t @ nl) w)
      else if tablesMap \<noteq> {} \<and> ToLower t \<notin> tablesMap then
        exportDBTables e h dbn tablesMap ignoreTables ts tableSchemas w
      else
        (case dbQuery e h (showCreateSQL dbn t) w of
           (Inl err, w1) \<Rightarrow>
             (Inl (Error (''exec SQL: '' @ showCreateSQL dbn t @ '' error: '' @ Msg err)), w1)
         | (Inr rs, w1) \<Rightarrow>
             (case (case rowData rs of [] \<Rightarrow> Inl errNoRow | r # _ \<Rightarrow> Scan2 r) of
                Inl err \<Rightarrow> (Inl (Error (''scan rows error: '' @ Msg err)), w1)
              | Inr (table, createSQL) \<Rightarrow>
                  (case closeErr rs of
                     Some err \<Rightarrow> (Inl err, w1)
                   | None \<Rightarrow>
                       exportDBTables e h dbn tablesMap ignoreTables ts
                         (mapPut tableSchemas table createSQL) w1))))"

definition schemaFileName :: "string \<Rightarrow> string" where
  "schemaFileName dbn = ''schema-'' @ dbn @ ''.sql''"

definition exportDBSchemas ::
  "env \<Rightarrow> tidbHandler \<Rightarrow> string \<Rightarrow> string \<Rightarrow> string set \<Rightarrow> string set \<Rightarrow> world \<Rightarrow>
   error option \<times> world" where
  "exportDBSchemas e h dbn dir tablesMap ignoreTables w =
     (case getTables e h dbn w of
        (Inl err, w1) \<Rightarrow>
          (Some (Error (''get DB: '' @ dbn @ '' table information error: '' @ Msg err)), w1)
      | (Inr tables, w1) \<Rightarrow>
          (let path = joinPath e dir (schemaFileName dbn) in
           case exportDBTables e h dbn tablesMap ignoreTables tables [] w1 of
             (Inl err, w2) \<Rightarrow> (Some err, w2)
           | (Inr tableSchemas, w2) \<Rightarrow>
               (case openFile e path w2 of
                  (Some err, w3) \<Rightarrow> (Some err, w3)
                | (None, w3) \<Rightarrow>
                    (case marshalIndent e tableSchemas of
                       Inl err \<Rightarrow> (Some err, w3)
                     | Inr jsonData \<Rightarrow>
                         (case writeFile e OpWrite path jsonData w3 of
                            (Some err, w4) \<Rightarrow> (Some err, w4)
                          | (None, w4) \<Rightarrow>
                              (case fsErr e OpClose path (trace w4) of
                                 Some err \<Rightarrow> (Some err, w4)
                               | None \<Rightarrow>
                                   (None,
                                    Printf (''export '' @ addr (opt h) @ '':'' @ port (opt h) @ ''/''
                                      @ dbn @ '' schemas into '' @ path @ nl) w4)))))))"

fun exportSchemas ::
  "env \<Rightarrow> tidbHandler \<Rightarrow> string list \<Rightarrow> string \<Rightarrow> string set \<Rightarrow> string set \<Rightarrow> world \<Rightarrow>
   error option \<times> world" where
  "exportSchemas e h [] dir tablesMap ignoreTables w = (None, w)"
| "exportSchemas e h (dbn # dbs) dir tablesMap ignoreTables w =
     (case exportDBSchemas e h dbn dir tablesMap ignoreTables w of
        (Some err, w1) \<Rightarrow>
          (Some (Error (''export DB: '' @ dbn @ '' schemas to '' @ dir @ '' error: '' @ Msg err)), w1)
      | (None, w1) \<Rightarrow> exportSchemas e h dbs dir tablesMap ignoreTables w1)"

section \<open>Statistics export\<close>

definition statsURL :: "tidbHandler \<Rightarrow> string \<Rightarrow> string \<Rightarrow> string" where
  "statsURL h dbn table =
     ''http://'' @ addr (opt h) @ '':'' @ statusPort (opt h) @ ''/stats/dump/'' @ dbn @ ''/'' @ table"

definition statsFileName :: "string \<Rightarrow> string \<Rightarrow> string" where
  "statsFileName dbn table = ''stats-'' @ dbn @ ''-'' @ table @ ''.json''"

text \<open>
  \<open>http.Get\<close> returns an error only when no response was received; a response of any
  status is a response. The body is copied through a buffered writer and flushed.
\<close>

definition exportTableStats ::
  "env \<Rightarrow> tidbHandler \<Rightarrow> string \<Rightarrow> string \<Rightarrow> string \<Rightarrow> world \<Rightarrow> error option \<times> world" where
  "exportTableStats e h dbn table dir w =
     (case httpGet e (statsURL h dbn table) w of
        (Inl err, w1) \<Rightarrow>
          (Some (Error (''request URL: '' @ statsURL h dbn table @ '' error: '' @ Msg err)), w1)
      | (Inr resp, w1) \<Rightarrow>
          (let path = joinPath e dir (statsFileName dbn table) in
           case openFile e path w1 of
             (Some err, w2) \<Rightarrow> (Some err, w2)
           | (None, w2) \<Rightarrow>
               (case writeFile e OpCopy path (body resp) w2 of
                  (Some err, w3) \<Rightarrow> (Some err, w3)
                | (None, w3) \<Rightarrow>
                    (case writeFile e OpFlush path (body resp) w3 of
                       (Some err, w4) \<Rightarrow> (Some err, w4)
                     | (None, w4) \<Rightarrow>
                         (None,
                          Printf (''export '' @ addr (opt h) @ '':'' @ port (opt h) @ ''/'' @ dbn
                            @ ''.'' @ table @ '' stats into '' @ path @ nl) w4)))))"

text \<open>The loop over the tables of one database in \<open>exportStats\<close>.\<close>

fun exportStatsTables ::
  "env \<Rightarrow> tidbHandler \<Rightarrow> string \<Rightarrow> string \<Rightarrow> string set \<Rightarrow> string set \<Rightarrow> string list \<Rightarrow>
   world \<Rightarrow> error option \<times> world" where
  "exportStatsTables e h dbn dir tablesMap ignoreTables [] w = (None, w)"
| "exportStatsTables e h dbn dir tablesMap ignoreTables (t # ts) w =
     (if ToLower t \<in> ignoreTables then
        exportStatsTables e h dbn dir tablesMap ignoreTables ts (Printf (''ignore table: '' @ t @ nl) w)
      else if tablesMap \<noteq> {} \<and> ToLower t \<notin> tablesMap then
        exportStatsTables e h dbn dir tablesMap ignoreTables ts w
      else
        (case exportTableStats e h dbn t dir w of
           (Some err, w1) \<Rightarrow>
             (Some (Error (''export DB: '' @ dbn @ '' table: '' @ t @ '' statistics to '' @ dir
                @ '' error: '' @ Msg err)), w1)
         | (None, w1) \<Rightarrow> exportStatsTables e h dbn dir tablesMap ignoreTables ts w1))"

fun exportStats ::
  "env \<Rightarrow> tidbHandler \<Rightarrow> string list \<Rightarrow> string \<Rightarrow> string set \<Rightarrow> string set \<Rightarrow> world \<Rightarrow>
   error option \<times> world" where
  "exportStats e h [] dir tablesMap ignoreTables w = (None, w)"
| "exportStats e h (dbn # dbs) dir tablesMap ignoreTables w =
     (case getTables e h dbn w of
        (Inl err, w1) \<Rightarrow>
          (Some (Error (''get DB: '' @ dbn @ '' table information error: '' @ Msg err)), w1)
      | (Inr tables, w1) \<Rightarrow>
          (case exportStatsTables e h dbn dir tablesMap ignoreTables tables w1 of
             (Some err, w2) \<Rightarrow> (Some err, w2)
           | (None, w2) \<Rightarrow> exportStats e h dbs dir tablesMap ignoreTables w2))"

section \<open>Schema import\<close>

text \<open>The loop over the statements of one DDL artifact in \<open>importSchemas\<close>. (Go
  ranges over the map in an unspecified order; here it is the order of the list.)\<close>

fun execSchemas ::
  "env \<Rightarrow> tidbHandler \<Rightarrow> string \<Rightarrow> string list \<Rightarrow> world \<Rightarrow> error option \<times> world" where
  "execSchemas e h path [] w = (None, w)"
| "execSchemas e h path (sql # sqls) w =
     (case dbExec e h (TrimSpace sql) w of
        (Some err, w1) \<Rightarrow>
          (Some (Error (''execute SQL: '' @ TrimSpace sql @ '' from '' @ path @ '' error: ''
             @ Msg err)), w1)
      | (None, w1) \<Rightarrow> execSchemas e h path sqls w1)"

fun importSchemas ::
  "env \<Rightarrow> tidbHandler \<Rightarrow> string list \<Rightarrow> string \<Rightarrow> world \<Rightarrow> error option \<times> world" where
  "importSchemas e h [] dir w = (None, w)"
| "importSchemas e h (dbn # dbs) dir w =
     (case dbExec e h (''create database if not exists `'' @ dbn @ ''`'') w of
        (Some err, w1) \<Rightarrow> (Some (Error (''create DB: '' @ dbn @ '' error: '' @ Msg err)), w1)
      | (None, w1) \<Rightarrow>
          (case dbExec e h (''use '' @ dbn) w1 of
             (Some err, w2) \<Rightarrow>
               (Some (Error (''switch to DB: '' @ dbn @ '' error: '' @ Msg err)), w2)
           | (None, w2) \<Rightarrow>
               (let path = joinPath e dir (schemaFileName dbn) in
                case readFile e path w2 of
                  Inl err \<Rightarrow>
                    (Some (Error (''read file '' @ path @ '' err: '' @ Msg err)), w2)
                | Inr content \<Rightarrow>
                    (case unmarshal e content of
                       Inl err \<Rightarrow>
                         (Some (Error (''unmarshal file '' @ path @ '' err: '' @ Msg err)), w2)
                     | Inr tableSchemas \<Rightarrow>
                         (case execSchemas e h path (map snd tableSchemas) w2 of
                            (Some err, w3) \<Rightarrow> (Some err, w3)
                          | (None, w3) \<Rightarrow>
                              importSchemas e h dbs dir
                                (Printf (''import schemas from '' @ path @ '' into ''
                                   @ addr (opt h) @ '':'' @ port (opt h) @ ''/'' @ dbn @ nl) w3))))))"

section \<open>Statistics import\<close>

definition loadStatsSQL :: "string \<Rightarrow> string" where
  "loadStatsSQL fpath = ''load stats '' @ [CHR 0x27] @ fpath @ [CHR 0x27]"

text \<open>The loop over the artifacts of one database in \<open>importStats\<close>.\<close>

fun importStatsFiles ::
  "env \<Rightarrow> tidbHandler \<Rightarrow> string \<Rightarrow> string list \<Rightarrow> world \<Rightarrow> error option \<times> world" where
  "importStatsFiles e h dbn [] w = (None, w)"
| "importStatsFiles e h dbn (fpath # fpaths) w =
     (case dbExec e h (loadStatsSQL fpath) (w\<lparr>localFiles := localFiles w @ [fpath]\<rparr>) of
        (Some err, w1) \<Rightarrow> (Some err, w1)
      | (None, w1) \<Rightarrow>
          importStatsFiles e h dbn fpaths
            (Printf (''import stats from '' @ fpath @ '' into '' @ addr (opt h) @ '':''
               @ port (opt h) @ ''/'' @ dbn @ nl) w1))"

fun importStats ::
  "env \<Rightarrow> tidbHandler \<Rightarrow> string list \<Rightarrow> string \<Rightarrow> world \<Rightarrow> error option \<times> world" where
  "importStats e h [] dir w = (None, w)"
| "importStats e h (dbn # dbs) dir w =
     (case globRes e (joinPath e dir (''stats-'' @ dbn @ ''-*[.]json'')) (files w) of
        Inl err \<Rightarrow> (Some err, w)
      | Inr fpaths \<Rightarrow>
          (case importStatsFiles e h dbn fpaths w of
             (Some err, w1) \<Rightarrow> (Some err, w1)
           | (None, w1) \<Rightarrow> importStats e h dbs dir w1))"

section \<open>The snapshot codec\<close>

definition schemaPath :: "env \<Rightarrow> string \<Rightarrow> string \<Rightarrow> string \<Rightarrow> string" where
  "schemaPath e dbn table dir = joinPath e dir (''schema-'' @ dbn @ ''-'' @ table @ ''.sql'')"

definition statsPath :: "env \<Rightarrow> string \<Rightarrow> string \<Rightarrow> string \<Rightarrow> string" where
  "statsPath e dbn table dir = joinPath e dir (''stats-'' @ dbn @ ''-'' @ table @ ''.json'')"

text \<open>
  The two \<open>if\<close> statements of the walk function of \<open>parseDBTables\<close> that compute
  \<open>fields\<close> (here \<open>flds\<close>) from the file name; it starts as the nil slice. \<open>None\<close> is a panic
  of a slice expression.
\<close>

definition decodeFields :: "string \<Rightarrow> string list option" where
  "decodeFields fname =
     (case (if HasPrefix fname ''schema-'' \<and> HasSuffix fname ''.sql''
            then map_option (\<lambda>mid. Split mid (CHR ''-''))
                   (slice fname (length ''schema-'') (int (length fname) - int (length ''.sql'')))
            else Some []) of
        None \<Rightarrow> None
      | Some flds1 \<Rightarrow>
          (if HasPrefix fname ''stats-'' \<and> HasSuffix fname ''.json''
           then map_option (\<lambda>mid. Split mid (CHR ''-''))
                  (slice fname (length ''stats-'') (int (length fname) - int (length ''.json'')))
           else Some flds1))"

text \<open>\<open>dbTables\<close> is a Go map from database to its list of tables; a key that is
  absent reads as the nil slice.\<close>

definition walkFn ::
  "string \<Rightarrow> bool \<Rightarrow> (string \<rightharpoonup> string list) \<Rightarrow> (string \<rightharpoonup> string list) option" where
  "walkFn fpath isDir dbTables =
     (if isDir then Some dbTables
      else (case decodeFields (Base fpath) of
              None \<Rightarrow> None
            | Some flds \<Rightarrow>
                (if length flds = 2
                 then Some (dbTables(flds ! 0 \<mapsto>
                        (case dbTables (flds ! 0) of None \<Rightarrow> [] | Some ts \<Rightarrow> ts) @ [flds ! 1]))
                 else Some dbTables)))"

text \<open>
  \<open>filepath.Walk\<close> calls the walk function on the directory and on everything below
  it, in lexical order; the walk is given as the list of the paths visited, each with
  whether it is a directory. The walk function never returns an error, so the walk
  visits every entry and returns \<open>nil\<close>.
\<close>

fun walk ::
  "(string \<times> bool) list \<Rightarrow> (string \<rightharpoonup> string list) \<Rightarrow> (string \<rightharpoonup> string list) option" where
  "walk [] dbTables = Some dbTables"
| "walk ((fpath, isDir) # entries) dbTables =
     (case walkFn fpath isDir dbTables of
        None \<Rightarrow> None
      | Some dbTables' \<Rightarrow> walk entries dbTables')"

definition parseDBTables ::
  "(string \<times> bool) list \<Rightarrow> ((string \<rightharpoonup> string list) \<times> error option) option" where
  "parseDBTables entries = map_option (\<lambda>dbTables. (dbTables, None)) (walk entries Map.empty)"

section \<open>The command\<close>

definition newDBHandler ::
  "env \<Rightarrow> tidbAccessOptions \<Rightarrow> string \<Rightarrow> world \<Rightarrow> (error + tidbHandler) \<times> world" where
  "newDBHandler e ao defaultDB w =
     (let d0 = TrimSpace (ToLower defaultDB);
          d = (if d0 = [] then ''mysql'' else d0);
          dns = (if password ao = []
                 then user ao @ ''@tcp('' @ addr ao @ '':'' @ port ao @ '')/'' @ d
                 else user ao @ '':'' @ password ao @ ''@tcp('' @ addr ao @ '':'' @ port ao
                      @ '')/'' @ d);
          w1 = w\<lparr>trace := trace w @ [SqlOpen dns]\<rparr>
      in case sqlOpenErr e dns (trace w) of
           Some err \<Rightarrow>
             (Inl (Error (''connect to database dns:'' @ dns @ '', error: '' @ Msg err)), w1)
         | None \<Rightarrow>
             (case pingErr e dns (trace w1) of
                Some err \<Rightarrow>
                  (Inl (Error (''ping DB '' @ dns @ '' error: '' @ Msg err)),
                   w1\<lparr>trace := trace w1 @ [Ping dns]\<rparr>)
              | None \<Rightarrow> (Inr \<lparr>opt = ao, db = dns\<rparr>, w1\<lparr>trace := trace w1 @ [Ping dns]\<rparr>)))"

record transportOptions =
  src :: tidbAccessOptions
  dst :: tidbAccessOptions
  dir :: string
  dbs :: "string list"
  tables :: "string list"
  ignoreTables :: "string list"

text \<open>The loops that build \<open>tablesMap\<close> and \<open>ignoreTablesMap\<close> from the option lists:
  each entry becomes a key, as it is written.\<close>

definition stringSliceToMap :: "string list \<Rightarrow> string set" where
  "stringSliceToMap strs = foldl (\<lambda>m str. insert str m) {} strs"

text \<open>The export half of \<open>RunE\<close> (the body of \<open>if opt.src.addr != ""\<close>).\<close>

definition runExport :: "env \<Rightarrow> transportOptions \<Rightarrow> world \<Rightarrow> error option \<times> world" where
  "runExport e to w =
     (case newDBHandler e (src to) []
             (Printf (''begin to export schemas and statistics information from source databases'' @ nl) w) of
        (Inl err, w1) \<Rightarrow> (Some (Error (''create source DB handler error: '' @ Msg err)), w1)
      | (Inr h, w1) \<Rightarrow>
          (let tablesMap = stringSliceToMap (tables to);
               ignoreTablesMap = stringSliceToMap (ignoreTables to)
           in case exportSchemas e h (dbs to) (dir to) tablesMap ignoreTablesMap w1 of
                (Some err, w2) \<Rightarrow> (Some (Error (''export schemas error: '' @ Msg err)), w2)
              | (None, w2) \<Rightarrow>
                  (case exportStats e h (dbs to) (dir to) tablesMap ignoreTablesMap w2 of
                     (Some err, w3) \<Rightarrow>
                       (Some (Error (''export statistics information error: '' @ Msg err)), w3)
                   | (None, w3) \<Rightarrow>
                       (None,
                        Printf (''export schemas and statistics information from source databases successfully'' @ nl) w3))))"

text \<open>The import half of \<open>RunE\<close> (the body of \<open>if opt.dst.addr != ""\<close>).\<close>

definition runImport :: "env \<Rightarrow> transportOptions \<Rightarrow> world \<Rightarrow> error option \<times> world" where
  "runImport e to w =
     (case newDBHandler e (dst to) []
             (Printf (''begin to import schemas and statistics information into destination databases'' @ nl) w) of
        (Inl err, w1) \<Rightarrow> (Some (Error (''create destination DB handler error: '' @ Msg err)), w1)
      | (Inr h, w1) \<Rightarrow>
          (case importSchemas e h (dbs to) (dir to) w1 of
             (Some err, w2) \<Rightarrow> (Some (Error (''import schemas error: '' @ Msg err)), w2)
           | (None, w2) \<Rightarrow>
               (case importStats e h (dbs to) (dir to) w2 of
                  (Some err, w3) \<Rightarrow>
                    (Some (Error (''import statistics information error: '' @ Msg err)), w3)
                | (None, w3) \<Rightarrow>
                    (None,
                     Printf (''import schemas and statistics information into destination databases successfully'' @ nl) w3))))"

definition RunE :: "env \<Rightarrow> transportOptions \<Rightarrow> world \<Rightarrow> error option \<times> world" where
  "RunE e to0 w =
     (let to = (if dir to0 = [] then to0\<lparr>dir := tmpPathDir e\<rparr> else to0) in
      case fsErr e OpMkdirAll (dir to) (trace w) of
        Some err \<Rightarrow> (Some (Error (''create destination directory error: '' @ Msg err)), w)
      | None \<Rightarrow>
          (case (if addr (src to) \<noteq> [] then runExport e to w else (None, w)) of
             (Some err, w1) \<Rightarrow> (Some err, w1)
           | (None, w1) \<Rightarrow>
               (if addr (dst to) \<noteq> [] then runImport e to w1 else (None, w1))))"

section \<open>The specification's notions\<close>


text \<open>The tables a decoded directory lists for a database (none for a key that is
  absent).\<close>

definition tablesOf :: "(string \<rightharpoonup> string list) \<Rightarrow> string \<Rightarrow> string list" where
  "tablesOf m d = (case m d of None \<Rightarrow> [] | Some ts \<Rightarrow> ts)"


section \<open>Example environments\<close>

text \<open>
  A source server at 10.0.0.1 with one user database \<open>db\<close> holding the tables
  \<open>t1\<close>, \<open>t2\<close> and \<open>t3\<close>; every call succeeds. The examples below change one
  answer at a time. (The example encoding of a DDL artifact is \<open>name=statement;\<close> for
  each table; the theorems hold for every encoding.)
\<close>

definition h0 :: tidbHandler where
  "h0 = \<lparr>opt = \<lparr>addr = ''10.0.0.1'', statusPort = ''10080'', port = ''4000'', user = ''root'',
     password = [], version = []\<rparr>, db = ''root@tcp(10.0.0.1:4000)/mysql''\<rparr>"

definition w0 :: world where
  "w0 = \<lparr>trace = [], files = Map.empty, localFiles = [], out = []\<rparr>"

definition okRows :: "string list list \<Rightarrow> error + rows" where
  "okRows rs = Inr \<lparr>rowData = rs, closeErr = None\<rparr>"

definition exEnv :: env where
  "exEnv = \<lparr>
     sqlOpenErr = (\<lambda>_ _. None),
     pingErr = (\<lambda>_ _. None),
     execErr = (\<lambda>_ _ _. None),
     queryRes = (\<lambda>_ q _.
       if q = ''show databases'' then okRows [[''test''], [''mysql''], [''Information_Schema''], [''App'']]
       else if q = ''show tables'' then okRows [[''t1''], [''t2''], [''t3'']]
       else if q = showCreateSQL ''db'' ''t1'' then okRows [[''t1'', ''CREATE TABLE t1 (a int)'']]
       else if q = showCreateSQL ''db'' ''t2'' then okRows [[''t2'', ''CREATE TABLE t2 (b int)'']]
       else if q = showCreateSQL ''db'' ''t3'' then okRows [[''t3'', ''CREATE TABLE t3 (c int)'']]
       else Inl (Error ''unknown statement'')),
     httpRes = (\<lambda>url _.
       if url = ''http://10.0.0.1:10080/stats/dump/db/t1'' then Inr \<lparr>statusCode = 200, body = ''stats of t1''\<rparr>
       else if url = ''http://10.0.0.1:10080/stats/dump/db/t2'' then Inr \<lparr>statusCode = 200, body = ''stats of t2''\<rparr>
       else if url = ''http://10.0.0.1:10080/stats/dump/db/t3'' then Inr \<lparr>statusCode = 200, body = ''stats of t3''\<rparr>
       else Inl (Error ''connection refused'')),
     fsErr = (\<lambda>_ _ _. None),
     partialLen = (\<lambda>_ _. 0),
     marshalIndent = (\<lambda>m. Inr (concat (map (\<lambda>(k, v). k @ ''='' @ v @ '';'') m))),
     unmarshal = (\<lambda>content.
       if content = [] then Inl (Error ''unexpected end of JSON input'')
       else Inr (map (\<lambda>kv. case Split kv (CHR ''='') of [k, v] \<Rightarrow> (k, v) | _ \<Rightarrow> (kv, []))
                  (butlast (Split content (CHR '';''))))),
     globRes = (\<lambda>pat fs.
       if pat = ''/snap/stats-db-*[.]json''
       then Inr (filter (\<lambda>p. fs p \<noteq> None) [''/snap/stats-db-t1.json'', ''/snap/stats-db-t2.json'', ''/snap/stats-db-t3.json''])
       else Inr []),
     joinPath = (\<lambda>d n. d @ ''/'' @ n),
     tmpPathDir = ''/tmp/plan-change-capturer/2020-01-01T00-00-00Z''\<rparr>"



text \<open>The diagnostic endpoint answers every request with status 500.\<close>

definition env500 :: env where
  "env500 = exEnv\<lparr>httpRes := (\<lambda>_ _. Inr \<lparr>statusCode = 500, body = ''Internal Server Error''\<rparr>)\<rparr>"

text \<open>The fetch for \<open>t2\<close> fails; \<open>t1\<close> and \<open>t3\<close> are served. An export-only run over
  \<open>db\<close> into \<open>/snap\<close>.\<close>

definition envT2 :: env where
  "envT2 = exEnv\<lparr>httpRes := (\<lambda>url tr.
     if url = ''http://10.0.0.1:10080/stats/dump/db/t2'' then Inl (Error ''connection refused'')
     else httpRes exEnv url tr)\<rparr>"

definition noAccess :: tidbAccessOptions where
  "noAccess = \<lparr>addr = [], statusPort = ''10080'', port = ''4000'', user = [], password = [], version = []\<rparr>"


text \<open>
  A destination server at 10.0.0.2 and an import-only run from \<open>/snap\<close>. In \<open>wSnap\<close>
  the directory holds the DDL artifact of \<open>db\<close> and three statistics artifacts; the
  server rejects the load of the second one. In \<open>wNoSchema\<close> the DDL artifact is missing.
\<close>

definition dstAccess :: tidbAccessOptions where
  "dstAccess = \<lparr>addr = ''10.0.0.2'', statusPort = ''10080'', port = ''4000'', user = ''root'',
     password = [], version = []\<rparr>"

definition h1 :: tidbHandler where
  "h1 = \<lparr>opt = dstAccess, db = ''root@tcp(10.0.0.2:4000)/mysql''\<rparr>"

definition importOpts :: transportOptions where
  "importOpts = \<lparr>src = noAccess, dst = dstAccess, dir = ''/snap'', dbs = [''db''], tables = [],
     ignoreTables = []\<rparr>"

definition wSnap :: world where
  "wSnap = \<lparr>trace = [],
     files = [''/snap/schema-db.sql'' \<mapsto> ''t1=CREATE TABLE t1 (a int);t2=CREATE TABLE t2 (b int);'',
              ''/snap/stats-db-t1.json'' \<mapsto> ''stats of t1'',
              ''/snap/stats-db-t2.json'' \<mapsto> ''not json'',
              ''/snap/stats-db-t3.json'' \<mapsto> ''stats of t3''],
     localFiles = [], out = []\<rparr>"

definition wNoSchema :: world where
  "wNoSchema = \<lparr>trace = [],
     files = [''/snap/stats-db-t1.json'' \<mapsto> ''stats of t1''],
     localFiles = [], out = []\<rparr>"

definition envLoad2 :: env where
  "envLoad2 = exEnv\<lparr>execErr := (\<lambda>_ q _.
     if q = loadStatsSQL ''/snap/stats-db-t2.json'' then Some (Error ''load stats: invalid JSON'')
     else None)\<rparr>"

section \<open>Enumerating databases\<close>

lemma isSysDBIn_iff: "isSysDBIn l d \<longleftrightarrow> ToLower d \<in> ToLower ` set l"
  by (induction l) auto

lemma scanDBs_sound:
  "scanDBs rs acc = Inr ds \<Longrightarrow> set ds \<subseteq> set acc \<union> {d. \<not> isSysDB d}"
proof (induction rs arbitrary: acc)
  case Nil
  then show ?case by simp
next
  case (Cons r rs)
  then show ?case
    by (fastforce split: sum.splits if_splits)
qed

text \<open>
  Claim C10. Every database list that \<open>getDBs\<close> returns is free of system databases:
  no element equals \<open>INFORMATION_SCHEMA\<close>, \<open>METRICS_SCHEMA\<close>, \<open>PERFORMANCE_SCHEMA\<close> or
  \<open>mysql\<close> when both are put in lower case, whatever rows the server returns.
\<close>

theorem getDBs_excludes_sysDBs:
  "getDBs e h w = (Inr ds, w') \<Longrightarrow>
   \<forall>d \<in> set ds. \<forall>s \<in> set [''INFORMATION_SCHEMA'', ''METRICS_SCHEMA'', ''PERFORMANCE_SCHEMA'', ''mysql''].
     ToLower d \<noteq> ToLower s"
proof -
  assume a: "getDBs e h w = (Inr ds, w')"
  then obtain rs where "scanDBs rs [] = Inr ds"
    by (auto simp: getDBs_def split: prod.splits sum.splits)
  then have "set ds \<subseteq> {d. \<not> isSysDB d}"
    using scanDBs_sound by fastforce
  then show ?thesis
    by (auto simp: isSysDB_def isSysDBIn_iff sysDBs_def)
qed

theorem getDBs_excludes_sysDBs_witness:
  "fst (getDBs exEnv h0 w0) = Inr [''test'', ''App''] \<and>
   ToLower ''App'' \<noteq> ToLower ''mysql'' \<and> ToLower ''test'' \<noteq> ToLower ''INFORMATION_SCHEMA''"
proof -
  have ex: "fst (getDBs exEnv h0 w0) = Inr [''test'', ''App'']"
    by (simp add: getDBs_def dbQuery_def exEnv_def okRows_def Scan1_def isSysDB_def sysDBs_def
        ToLower_def toLowerChar_def)
  then have r: "getDBs exEnv h0 w0 = (Inr [''test'', ''App''], snd (getDBs exEnv h0 w0))"
    by (simp add: prod_eq_iff)
  from getDBs_excludes_sysDBs [OF r] ex show ?thesis by simp
qed

section \<open>The filter\<close>







lemmas ex_simps =
  stringSliceToMap_def ToLower_def toLowerChar_def exportTableStats_def httpGet_def statsURL_def
  h0_def w0_def exEnv_def openFile_def writeFile_def Printf_def statsFileName_def nl_def
  dbQuery_def showCreateSQL_def okRows_def Scan2_def mapPut_def


text \<open>
  Claim C3. The table name is put in lower case before it is looked up, but the
  entries of the include and exclude lists are stored as they are written, so an entry
  with an upper-case letter never matches: with include \<open>T1\<close> the table \<open>t1\<close> is not
  exported (with include \<open>t1\<close> it is), not even the table \<open>T1\<close> is; and with exclude
  \<open>T3\<close> the table \<open>t3\<close> is still exported. (\<open>isSysDB\<close> puts both sides in lower case.)
\<close>

theorem filter_entries_keep_their_case:
  "trace (snd (exportStatsTables exEnv h0 ''db'' ''/snap'' (stringSliceToMap [''T1''])
      (stringSliceToMap []) [''t1''] w0)) = [] \<and>
   trace (snd (exportStatsTables exEnv h0 ''db'' ''/snap'' (stringSliceToMap [''t1''])
      (stringSliceToMap []) [''t1''] w0)) = [HttpGet (statsURL h0 ''db'' ''t1'')] \<and>
   trace (snd (exportStatsTables exEnv h0 ''db'' ''/snap'' (stringSliceToMap [''T1''])
      (stringSliceToMap []) [''T1''] w0)) = [] \<and>
   trace (snd (exportDBTables exEnv h0 ''db'' (stringSliceToMap [''T1''])
      (stringSliceToMap []) [''t1''] [] w0)) = [] \<and>
   trace (snd (exportDBTables exEnv h0 ''db'' (stringSliceToMap [''t1''])
      (stringSliceToMap []) [''t1''] [] w0)) = [Query (db h0) (showCreateSQL ''db'' ''t1'')] \<and>
   trace (snd (exportStatsTables exEnv h0 ''db'' ''/snap'' (stringSliceToMap [])
      (stringSliceToMap [''T3'']) [''t3''] w0)) = [HttpGet (statsURL h0 ''db'' ''t3'')] \<and>
   trace (snd (exportStatsTables exEnv h0 ''db'' ''/snap'' (stringSliceToMap [])
      (stringSliceToMap [''t3'']) [''t3''] w0)) = []"
  by (simp add: ex_simps)

section \<open>The snapshot codec: file names\<close>

lemma Split_not_Nil: "Split s sep \<noteq> []"
  by (induction s) (auto split: list.splits)

lemma Split_no_sep: "sep \<notin> set s \<Longrightarrow> Split s sep = [s]"
  by (induction s) auto

lemma Split_append: "sep \<notin> set a \<Longrightarrow> Split (a @ sep # r) sep = a # Split r sep"
  by (induction a) auto

lemma Split_two: "sep \<notin> set a \<Longrightarrow> sep \<notin> set b \<Longrightarrow> Split (a @ sep # b) sep = [a, b]"
  by (simp add: Split_append Split_no_sep)

lemma HasPrefix_iff: "HasPrefix s p \<longleftrightarrow> (\<exists>r. s = p @ r)"
proof
  assume "HasPrefix s p"
  then have "s = p @ drop (length p) s"
    by (metis HasPrefix_def append_take_drop_id)
  then show "\<exists>r. s = p @ r" ..
next
  assume "\<exists>r. s = p @ r"
  then show "HasPrefix s p" by (auto simp: HasPrefix_def)
qed

lemma HasSuffix_iff: "HasSuffix s x \<longleftrightarrow> (\<exists>r. s = r @ x)"
proof
  assume "HasSuffix s x"
  then have "s = take (length s - length x) s @ x"
    by (metis HasSuffix_def append_take_drop_id)
  then show "\<exists>r. s = r @ x" ..
next
  assume "\<exists>r. s = r @ x"
  then show "HasSuffix s x" by (auto simp: HasSuffix_def)
qed

lemma slice_mid: "slice (p @ mid @ x) (length p) (int (length (p @ mid @ x)) - int (length x)) = Some mid"
  by (simp add: slice_def)

lemma suffix_of_rest:
  assumes "HasSuffix (p @ r) x" and "length x \<le> length r"
  shows "r = take (length r - length x) r @ x"
proof -
  have "drop (length (p @ r) - length x) (p @ r) = x"
    using assms(1) by (simp add: HasSuffix_def)
  moreover have "length (p @ r) - length x = length p + (length r - length x)"
    using assms(2) by simp
  ultimately have "drop (length r - length x) r = x"
    by simp
  then show ?thesis
    by (metis append_take_drop_id)
qed

lemma short_cases: "length r < 4 \<Longrightarrow> (r = [] \<or> (\<exists>a. r = [a]) \<or> (\<exists>a b. r = [a, b]) \<or> (\<exists>a b c. r = [a, b, c]))"
  by (cases r; cases "tl r"; cases "tl (tl r)"; cases "tl (tl (tl r))") auto

lemma schema_shape:
  "HasPrefix s ''schema-'' \<and> HasSuffix s ''.sql'' \<longleftrightarrow> (\<exists>mid. s = ''schema-'' @ mid @ ''.sql'')"
proof
  assume a: "HasPrefix s ''schema-'' \<and> HasSuffix s ''.sql''"
  then obtain r where r: "s = ''schema-'' @ r" by (auto simp: HasPrefix_iff)
  have "4 \<le> length r"
  proof (rule ccontr)
    assume "\<not> 4 \<le> length r"
    then have "length r < 4" by simp
    from short_cases [OF this] a r show False
      by (auto simp: HasSuffix_def)
  qed
  then have "r = take (length r - length ''.sql'') r @ ''.sql''"
    using a r suffix_of_rest [of "''schema-''" r "''.sql''"] by simp
  with r show "\<exists>mid. s = ''schema-'' @ mid @ ''.sql''" by metis
next
  assume "\<exists>mid. s = ''schema-'' @ mid @ ''.sql''"
  then show "HasPrefix s ''schema-'' \<and> HasSuffix s ''.sql''"
    by (auto simp: HasPrefix_def HasSuffix_def)
qed

lemma short_cases5: "length r < 5 \<Longrightarrow> (r = [] \<or> (\<exists>a. r = [a]) \<or> (\<exists>a b. r = [a, b]) \<or> (\<exists>a b c. r = [a, b, c]) \<or> (\<exists>a b c d. r = [a, b, c, d]))"
  by (cases r; cases "tl r"; cases "tl (tl r)"; cases "tl (tl (tl r))"; cases "tl (tl (tl (tl r)))") auto

lemma stats_shape:
  "HasPrefix s ''stats-'' \<and> HasSuffix s ''.json'' \<longleftrightarrow> (\<exists>mid. s = ''stats-'' @ mid @ ''.json'')"
proof
  assume a: "HasPrefix s ''stats-'' \<and> HasSuffix s ''.json''"
  then obtain r where r: "s = ''stats-'' @ r" by (auto simp: HasPrefix_iff)
  have "5 \<le> length r"
  proof (rule ccontr)
    assume "\<not> 5 \<le> length r"
    then have "length r < 5" by simp
    from short_cases5 [OF this] a r show False
      by (auto simp: HasSuffix_def)
  qed
  then have "r = take (length r - length ''.json'') r @ ''.json''"
    using a r suffix_of_rest [of "''stats-''" r "''.json''"] by simp
  with r show "\<exists>mid. s = ''stats-'' @ mid @ ''.json''" by metis
next
  assume "\<exists>mid. s = ''stats-'' @ mid @ ''.json''"
  then show "HasPrefix s ''stats-'' \<and> HasSuffix s ''.json''"
    by (auto simp: HasPrefix_def HasSuffix_def)
qed

lemma not_both: "HasPrefix s ''schema-'' \<Longrightarrow> \<not> HasPrefix s ''stats-''"
  by (auto simp: HasPrefix_iff)

lemma decodeFields_schema: "decodeFields (''schema-'' @ mid @ ''.sql'') = Some (Split mid (CHR ''-''))"
proof -
  let ?s = "''schema-'' @ mid @ ''.sql''"
  have 1: "(HasPrefix ?s ''schema-'' \<and> HasSuffix ?s ''.sql'') = True"
    using schema_shape by blast
  then have 2: "(HasPrefix ?s ''stats-'' \<and> HasSuffix ?s ''.json'') = False"
    using not_both by blast
  have 3: "slice ?s (length ''schema-'') (int (length ?s) - int (length ''.sql'')) = Some mid"
    by (rule slice_mid)
  show ?thesis
    unfolding decodeFields_def 1 2 3 by simp
qed

lemma decodeFields_stats: "decodeFields (''stats-'' @ mid @ ''.json'') = Some (Split mid (CHR ''-''))"
proof -
  let ?s = "''stats-'' @ mid @ ''.json''"
  have 1: "(HasPrefix ?s ''stats-'' \<and> HasSuffix ?s ''.json'') = True"
    using stats_shape by blast
  then have 2: "(HasPrefix ?s ''schema-'' \<and> HasSuffix ?s ''.sql'') = False"
    using not_both by blast
  have 3: "slice ?s (length ''stats-'') (int (length ?s) - int (length ''.json'')) = Some mid"
    by (rule slice_mid)
  show ?thesis
    unfolding decodeFields_def 1 2 3 by simp
qed




section \<open>The snapshot codec: decoding a directory\<close>





lemmas codec_simps =
  parseDBTables_def walkFn_def Base_def stripSlashes_def lastElem_def decodeFields_def
  HasPrefix_def HasSuffix_def slice_def tablesOf_def


lemma Base_join:
  assumes "CHR ''/'' \<notin> set n" and "n \<noteq> []"
  shows "Base (d @ ''/'' @ n) = n"
proof -
  obtain x xs where r: "rev n = x # xs"
    using assms(2) by (cases "rev n") auto
  then have "x \<in> set n"
    by (metis list.set_intros(1) set_rev)
  then have x: "x \<noteq> CHR ''/''"
    using assms(1) by auto
  have "rev (d @ ''/'' @ n) = x # (xs @ CHR ''/'' # rev d)"
    using r by simp
  then have "dropWhile (\<lambda>c. c = CHR ''/'') (rev (d @ ''/'' @ n)) = rev (d @ ''/'' @ n)"
    using x by simp
  then have s: "stripSlashes (d @ ''/'' @ n) = d @ ''/'' @ n"
    by (simp add: stripSlashes_def)
  have "takeWhile (\<lambda>c. c \<noteq> CHR ''/'') (rev n @ CHR ''/'' # rev d) = rev n"
    using assms(1) by (simp add: takeWhile_append)
  then have "lastElem (d @ ''/'' @ n) = n"
    by (simp add: lastElem_def)
  with s assms(2) show ?thesis
    by (simp add: Base_def)
qed

lemma parse_single:
  assumes "Base fp = name" and "decodeFields name = Some flds"
  shows "parseDBTables [(fp, False)] =
    Some (if length flds = 2 then [flds ! 0 \<mapsto> [flds ! 1]] else Map.empty, None)"
  using assms by (simp add: parseDBTables_def walkFn_def)

text \<open>
  Claim C4, as amended. For a database and a table name without the separator \<open>-\<close>,
  placed in a directory so that the file name is the last element of the path (by
  \<open>Base_join\<close>, names without a slash), the statistics file written by
  \<open>exportTableStats\<close> (the path of \<open>statsPath\<close>) and the two-field schema path of
  \<open>schemaPath\<close> each decode to exactly the pair of database and table; the decoded
  result does not carry the artifact kind. The per-database file \<open>schema-<db>.sql\<close>
  that \<open>exportDBSchemas\<close> writes has one field only and decodes to nothing.
\<close>

theorem codec_round_trip:
  assumes "CHR ''-'' \<notin> set dbn" and "CHR ''-'' \<notin> set table"
    and "Base (statsPath e dbn table d) = ''stats-'' @ dbn @ ''-'' @ table @ ''.json''"
    and "Base (schemaPath e dbn table d) = ''schema-'' @ dbn @ ''-'' @ table @ ''.sql''"
    and "Base (joinPath e d (schemaFileName dbn)) = schemaFileName dbn"
  shows "joinPath e d (statsFileName dbn table) = statsPath e dbn table d \<and>
    parseDBTables [(statsPath e dbn table d, False)] = Some ([dbn \<mapsto> [table]], None) \<and>
    parseDBTables [(schemaPath e dbn table d, False)] = Some ([dbn \<mapsto> [table]], None) \<and>
    parseDBTables [(joinPath e d (schemaFileName dbn), False)] = Some (Map.empty, None)"
proof -
  have two: "Split (dbn @ ''-'' @ table) (CHR ''-'') = [dbn, table]"
    using Split_two [OF assms(1,2)] by simp
  have one: "Split dbn (CHR ''-'') = [dbn]"
    using assms(1) by (rule Split_no_sep)
  have st: "decodeFields (''stats-'' @ dbn @ ''-'' @ table @ ''.json'') = Some [dbn, table]"
    using decodeFields_stats [of "dbn @ ''-'' @ table"] two by simp
  have sc: "decodeFields (''schema-'' @ dbn @ ''-'' @ table @ ''.sql'') = Some [dbn, table]"
    using decodeFields_schema [of "dbn @ ''-'' @ table"] two by simp
  have sd: "decodeFields (schemaFileName dbn) = Some [dbn]"
    using decodeFields_schema [of dbn] one by (simp add: schemaFileName_def)
  have "joinPath e d (statsFileName dbn table) = statsPath e dbn table d"
    by (simp add: statsPath_def statsFileName_def)
  moreover have "parseDBTables [(statsPath e dbn table d, False)] = Some ([dbn \<mapsto> [table]], None)"
    using parse_single [OF assms(3) st] by simp
  moreover have "parseDBTables [(schemaPath e dbn table d, False)] = Some ([dbn \<mapsto> [table]], None)"
    using parse_single [OF assms(4) sc] by simp
  moreover have "parseDBTables [(joinPath e d (schemaFileName dbn), False)] = Some (Map.empty, None)"
    using parse_single [OF assms(5) sd] by simp
  ultimately show ?thesis by blast
qed

theorem codec_round_trip_witness:
  "parseDBTables [(statsPath exEnv ''db'' ''t1'' ''/snap'', False)] = Some ([''db'' \<mapsto> [''t1'']], None) \<and>
   parseDBTables [(schemaPath exEnv ''db'' ''t1'' ''/snap'', False)] = Some ([''db'' \<mapsto> [''t1'']], None) \<and>
   statsPath exEnv ''db'' ''t1'' ''/snap'' = ''/snap/stats-db-t1.json''"
proof -
  have 1: "CHR ''-'' \<notin> set ''db''" and 2: "CHR ''-'' \<notin> set ''t1''"
    by simp_all
  have 3: "Base (statsPath exEnv ''db'' ''t1'' ''/snap'') = ''stats-'' @ ''db'' @ ''-'' @ ''t1'' @ ''.json''"
    by (simp add: statsPath_def exEnv_def Base_def stripSlashes_def lastElem_def)
  have 4: "Base (schemaPath exEnv ''db'' ''t1'' ''/snap'') = ''schema-'' @ ''db'' @ ''-'' @ ''t1'' @ ''.sql''"
    by (simp add: schemaPath_def exEnv_def Base_def stripSlashes_def lastElem_def)
  have 5: "Base (joinPath exEnv ''/snap'' (schemaFileName ''db'')) = schemaFileName ''db''"
    by (simp add: schemaFileName_def exEnv_def Base_def stripSlashes_def lastElem_def)
  have "statsPath exEnv ''db'' ''t1'' ''/snap'' = ''/snap/stats-db-t1.json''"
    by (simp add: statsPath_def exEnv_def)
  with codec_round_trip [OF 1 2 3 4 5] show ?thesis
    by simp
qed

text \<open>
  The claim as it was stated fails for the schema artifact that the export writes: the
  file \<open>/snap/schema-db.sql\<close> of database \<open>db\<close> yields no entry when decoded.
\<close>

theorem schema_file_not_decoded:
  "parseDBTables [(joinPath exEnv ''/snap'' (schemaFileName ''db''), False)] = Some (Map.empty, None)"
  by (simp add: exEnv_def schemaFileName_def codec_simps)

section \<open>Statistics export\<close>

text \<open>
  Claim C7, as amended. Only a failure of the GET itself (no response) aborts the
  table's export, before any file is created. A response that is received has its body
  written verbatim into the artifact file whatever its status code is (when the file
  operations succeed): the code never looks at the status.
\<close>

theorem exportTableStats_response_handling:
  "(\<forall>err. httpRes e (statsURL h dbn t) (trace w) = Inl err \<longrightarrow>
      exportTableStats e h dbn t d w =
        (Some (Error (''request URL: '' @ statsURL h dbn t @ '' error: '' @ Msg err)),
         w\<lparr>trace := trace w @ [HttpGet (statsURL h dbn t)]\<rparr>)) \<and>
   (\<forall>resp. httpRes e (statsURL h dbn t) (trace w) = Inr resp \<and>
      (\<forall>oper. fsErr e oper (joinPath e d (statsFileName dbn t))
          (trace w @ [HttpGet (statsURL h dbn t)]) = None) \<longrightarrow>
      fst (exportTableStats e h dbn t d w) = None \<and>
      files (snd (exportTableStats e h dbn t d w)) (joinPath e d (statsFileName dbn t)) = Some (body resp))"
  by (auto simp: exportTableStats_def httpGet_def openFile_def writeFile_def Printf_def Let_def)

theorem exportTableStats_response_handling_witness:
  "exportTableStats envT2 h0 ''db'' ''t2'' ''/snap'' w0 =
     (Some (Error ''request URL: http://10.0.0.1:10080/stats/dump/db/t2 error: connection refused''),
      w0\<lparr>trace := [HttpGet ''http://10.0.0.1:10080/stats/dump/db/t2'']\<rparr>) \<and>
   fst (exportTableStats exEnv h0 ''db'' ''t1'' ''/snap'' w0) = None \<and>
   files (snd (exportTableStats exEnv h0 ''db'' ''t1'' ''/snap'' w0)) ''/snap/stats-db-t1.json''
     = Some ''stats of t1''"
proof -
  have 1: "httpRes envT2 (statsURL h0 ''db'' ''t2'') (trace w0) = Inl (Error ''connection refused'')"
    by (simp add: envT2_def exEnv_def statsURL_def h0_def)
  have 2: "httpRes exEnv (statsURL h0 ''db'' ''t1'') (trace w0) = Inr \<lparr>statusCode = 200, body = ''stats of t1''\<rparr>"
    by (simp add: exEnv_def statsURL_def h0_def)
  have 3: "\<forall>oper. fsErr exEnv oper (joinPath exEnv ''/snap'' (statsFileName ''db'' ''t1''))
          (trace w0 @ [HttpGet (statsURL h0 ''db'' ''t1'')]) = None"
    by (simp add: exEnv_def)
  have a: "exportTableStats envT2 h0 ''db'' ''t2'' ''/snap'' w0 =
        (Some (Error (''request URL: '' @ statsURL h0 ''db'' ''t2'' @ '' error: '' @ Msg (Error ''connection refused''))),
         w0\<lparr>trace := trace w0 @ [HttpGet (statsURL h0 ''db'' ''t2'')]\<rparr>)"
    using exportTableStats_response_handling [of envT2 h0 "''db''" "''t2''" w0 "''/snap''"] 1 by blast
  have b: "fst (exportTableStats exEnv h0 ''db'' ''t1'' ''/snap'' w0) = None \<and>
      files (snd (exportTableStats exEnv h0 ''db'' ''t1'' ''/snap'' w0)) (joinPath exEnv ''/snap'' (statsFileName ''db'' ''t1''))
        = Some (body \<lparr>statusCode = 200, body = ''stats of t1''\<rparr>)"
    using exportTableStats_response_handling [of exEnv h0 "''db''" "''t1''" w0 "''/snap''"] 2 3 by blast
  from a b show ?thesis
    by (simp add: statsURL_def h0_def w0_def exEnv_def statsFileName_def)
qed

text \<open>
  The claim as it was stated fails: the body of a response with status 500 becomes the
  statistics artifact of the table, and the export reports success.
\<close>

theorem error_response_body_is_written:
  "httpRes env500 (statsURL h0 ''db'' ''t1'') (trace w0) = Inr \<lparr>statusCode = 500, body = ''Internal Server Error''\<rparr> \<and>
   fst (exportTableStats env500 h0 ''db'' ''t1'' ''/snap'' w0) = None \<and>
   files (snd (exportTableStats env500 h0 ''db'' ''t1'' ''/snap'' w0)) ''/snap/stats-db-t1.json''
     = Some ''Internal Server Error''"
  by (simp add: env500_def ex_simps)






lemmas run_simps =
  RunE_def runExport_def runImport_def newDBHandler_def TrimSpace_def isSpace_def
  exportDBSchemas_def getTables_def dbExec_def Scan1_def schemaFileName_def Let_def



section \<open>Statistics import\<close>

lemmas import_simps = importOpts_def dstAccess_def h1_def wSnap_def wNoSchema_def envLoad2_def loadStatsSQL_def readFile_def

lemma importStatsFiles_append:
  "importStatsFiles e h dbn (xs @ ys) w =
     (case importStatsFiles e h dbn xs w of
        (Some err, w') \<Rightarrow> (Some err, w')
      | (None, w') \<Rightarrow> importStatsFiles e h dbn ys w')"
  by (induction xs arbitrary: w) (auto split: prod.splits option.splits)

lemma importStats_append:
  "importStats e h (xs @ ys) d w =
     (case importStats e h xs d w of
        (Some err, w') \<Rightarrow> (Some err, w')
      | (None, w') \<Rightarrow> importStats e h ys d w')"
  by (induction xs arbitrary: w) (auto split: prod.splits option.splits sum.splits)

lemma RunE_import_stats_error:
  assumes "dir to \<noteq> []" and "fsErr e OpMkdirAll (dir to) (trace wi) = None"
    and "(if addr (src to) \<noteq> [] then runExport e to wi else (None, wi)) = (None, wx)"
    and "addr (dst to) \<noteq> []"
    and "newDBHandler e (dst to) []
           (Printf (''begin to import schemas and statistics information into destination databases'' @ nl) wx) = (Inr h, wa)"
    and "importSchemas e h (dbs to) (dir to) wa = (None, w)"
    and "importStats e h (dbs to) (dir to) w = (Some err, w')"
  shows "RunE e to wi = (Some (Error (''import statistics information error: '' @ Msg err)), w')"
  using assms by (simp add: RunE_def runImport_def Let_def)

text \<open>
  Claim C6, as amended. Statistics import stops at the first artifact whose load
  fails: when the databases before \<open>dbn\<close> and the artifacts before \<open>f\<close> raise no error
  and the server rejects the load of \<open>f\<close> with \<open>err\<close>, \<open>importStats\<close> returns \<open>err\<close> and
  the run returns it as \<open>import statistics information error\<close>. The world is then the
  one the failed load left: \<open>f\<close> is registered and its load was sent, and no later
  artifact and no later database is touched.
\<close>

theorem stats_import_stops_at_first_failure:
  assumes "importStats e h dpre d w = (None, w1)"
    and "globRes e (joinPath e d (''stats-'' @ dbn @ ''-*[.]json'')) (files w1) = Inr (pre @ f # post)"
    and "importStatsFiles e h dbn pre w1 = (None, w2)"
    and "execErr e (db h) (loadStatsSQL f) (trace w2) = Some err"
  shows "importStats e h (dpre @ dbn # dpost) d w =
      (Some err, w2\<lparr>trace := trace w2 @ [Exec (db h) (loadStatsSQL f)],
                     localFiles := localFiles w2 @ [f]\<rparr>) \<and>
    (\<forall>to wi wx wa.
       dir to = d \<and> d \<noteq> [] \<and> dbs to = dpre @ dbn # dpost \<and>
       fsErr e OpMkdirAll d (trace wi) = None \<and>
       (if addr (src to) \<noteq> [] then runExport e to wi else (None, wi)) = (None, wx) \<and>
       addr (dst to) \<noteq> [] \<and>
       newDBHandler e (dst to) []
         (Printf (''begin to import schemas and statistics information into destination databases'' @ nl) wx)
         = (Inr h, wa) \<and>
       importSchemas e h (dbs to) d wa = (None, w) \<longrightarrow>
       RunE e to wi =
         (Some (Error (''import statistics information error: '' @ Msg err)),
          w2\<lparr>trace := trace w2 @ [Exec (db h) (loadStatsSQL f)],
              localFiles := localFiles w2 @ [f]\<rparr>))"
proof -
  let ?w3 = "w2\<lparr>trace := trace w2 @ [Exec (db h) (loadStatsSQL f)], localFiles := localFiles w2 @ [f]\<rparr>"
  have "importStatsFiles e h dbn (f # post) w2 = (Some err, ?w3)"
    using assms(4) by (simp add: dbExec_def)
  then have "importStatsFiles e h dbn (pre @ f # post) w1 = (Some err, ?w3)"
    using assms(3) by (simp add: importStatsFiles_append)
  then have "importStats e h (dbn # dpost) d w1 = (Some err, ?w3)"
    using assms(2) by simp
  then have s: "importStats e h (dpre @ dbn # dpost) d w = (Some err, ?w3)"
    using assms(1) by (simp add: importStats_append)
  have "RunE e to wi = (Some (Error (''import statistics information error: '' @ Msg err)), ?w3)"
    if "dir to = d" "d \<noteq> []" "dbs to = dpre @ dbn # dpost"
       "fsErr e OpMkdirAll d (trace wi) = None"
       "(if addr (src to) \<noteq> [] then runExport e to wi else (None, wi)) = (None, wx)"
       "addr (dst to) \<noteq> []"
       "newDBHandler e (dst to) []
         (Printf (''begin to import schemas and statistics information into destination databases'' @ nl) wx)
         = (Inr h, wa)"
       "importSchemas e h (dbs to) d wa = (None, w)" for to wi wx wa
    using RunE_import_stats_error [of to e wi wx h wa w err ?w3] that s
    by simp
  with s show ?thesis by blast
qed

theorem stats_import_stops_at_first_failure_witness:
  "fst (RunE envLoad2 importOpts wSnap) =
     Some (Error ''import statistics information error: load stats: invalid JSON'') \<and>
   filter (\<lambda>ev. case ev of Exec _ q \<Rightarrow> HasPrefix q ''load stats'' | _ \<Rightarrow> False)
       (trace (snd (RunE envLoad2 importOpts wSnap))) =
     [Exec (db h1) (loadStatsSQL ''/snap/stats-db-t1.json''),
      Exec (db h1) (loadStatsSQL ''/snap/stats-db-t2.json'')]"
proof -
  let ?d = "''/snap''"
  let ?wa = "snd (newDBHandler envLoad2 (dst importOpts) []
     (Printf (''begin to import schemas and statistics information into destination databases'' @ nl) wSnap))"
  let ?w = "snd (importSchemas envLoad2 h1 [''db''] ?d ?wa)"
  let ?w2 = "snd (importStatsFiles envLoad2 h1 ''db'' [''/snap/stats-db-t1.json''] ?w)"
  let ?f = "''/snap/stats-db-t2.json''"
  let ?w3 = "?w2\<lparr>trace := trace ?w2 @ [Exec (db h1) (loadStatsSQL ?f)], localFiles := localFiles ?w2 @ [?f]\<rparr>"
  note defs = run_simps import_simps noAccess_def ex_simps
  have 1: "importStats envLoad2 h1 [] ?d ?w = (None, ?w)"
    by simp
  have 2: "globRes envLoad2 (joinPath envLoad2 ?d (''stats-'' @ ''db'' @ ''-*[.]json'')) (files ?w)
      = Inr ([''/snap/stats-db-t1.json''] @ ?f # [''/snap/stats-db-t3.json''])"
    by (simp add: defs)
  have 3: "importStatsFiles envLoad2 h1 ''db'' [''/snap/stats-db-t1.json''] ?w = (None, ?w2)"
    by (simp add: prod_eq_iff defs)
  have 4: "execErr envLoad2 (db h1) (loadStatsSQL ?f) (trace ?w2) = Some (Error ''load stats: invalid JSON'')"
    by (simp add: envLoad2_def loadStatsSQL_def)
  have 5: "newDBHandler envLoad2 (dst importOpts) []
     (Printf (''begin to import schemas and statistics information into destination databases'' @ nl) wSnap)
     = (Inr h1, ?wa)"
    by (simp add: prod_eq_iff defs)
  have 6: "importSchemas envLoad2 h1 (dbs importOpts) ?d ?wa = (None, ?w)"
    by (simp add: prod_eq_iff defs)
  have 7: "dir importOpts = ?d \<and> ?d \<noteq> [] \<and> dbs importOpts = [] @ ''db'' # [] \<and>
       fsErr envLoad2 OpMkdirAll ?d (trace wSnap) = None \<and>
       (if addr (src importOpts) \<noteq> [] then runExport envLoad2 importOpts wSnap else (None, wSnap)) = (None, wSnap) \<and>
       addr (dst importOpts) \<noteq> []"
    by (simp add: defs)
  from stats_import_stops_at_first_failure [OF 1 2 3 4, of "[]"] 5 6 7
  have "RunE envLoad2 importOpts wSnap =
     (Some (Error (''import statistics information error: '' @ Msg (Error ''load stats: invalid JSON''))), ?w3)"
    by blast
  then have "fst (RunE envLoad2 importOpts wSnap) =
       Some (Error (''import statistics information error: '' @ Msg (Error ''load stats: invalid JSON'')))"
    and "trace (snd (RunE envLoad2 importOpts wSnap)) = trace ?w3"
    by simp_all
  then show ?thesis
    by (simp add: HasPrefix_def defs)
qed

text \<open>
  The claim as it was stated fails: when the load of the artifact of \<open>t2\<close> is rejected,
  the run ends with an error, and the artifact of \<open>t3\<close>, which the server would accept,
  is neither registered nor loaded.
\<close>

theorem stats_load_failure_aborts_run:
  "fst (RunE envLoad2 importOpts wSnap) =
     Some (Error ''import statistics information error: load stats: invalid JSON'') \<and>
   localFiles (snd (RunE envLoad2 importOpts wSnap)) = [''/snap/stats-db-t1.json'', ''/snap/stats-db-t2.json''] \<and>
   Exec (db h1) (loadStatsSQL ''/snap/stats-db-t3.json'') \<notin> set (trace (snd (RunE envLoad2 importOpts wSnap))) \<and>
   execErr envLoad2 (db h1) (loadStatsSQL ''/snap/stats-db-t3.json'') (trace (snd (RunE envLoad2 importOpts wSnap))) = None \<and>
   files wSnap ''/snap/stats-db-t3.json'' = Some ''stats of t3''"
  by (simp add: run_simps import_simps noAccess_def ex_simps)

end
